theory Spec2Isabelle
  imports Complex_Main "HOL-Library.Word" "HOL-Library.Sublist"
begin

section \<open>Values shared by client and server\<close>

text \<open>
  A Python \<open>bytes\<close> object is a list of 8-bit words, so every byte value 0 to 255 is a
  member of the type and no other value is. The \<open>data\<close> field of a chunk message is a
  Python \<open>str\<close>: a list of code points, which JSON carries unchanged
  (\<open>json.loads (json.dumps s) = s\<close>), so a code point above 255 can arrive at the server.
  Identifiers, paths and texts are plain strings.
\<close>

type_synonym byte = "8 word"
type_synonym bytes = "byte list"
type_synonym pystr = "nat list"

text \<open>
  The exceptions of the model. \<open>FileNotFoundError\<close> carries its text; the others of the
  operating system (\<open>IsADirectoryError\<close>, \<open>PermissionError\<close>, any other \<open>OSError\<close>) are
  what opening a file can raise, and \<open>ConnectionResetError\<close> is what sending on a
  closed tunnel raises.
\<close>

datatype exn =
    FileNotFoundError string
  | IsADirectoryError
  | PermissionError
  | OSError
  | ConnectionResetError
  | ZeroDivisionError
  | ValueError
  | OverflowError
  | MemoryError
  | UnicodeEncodeError

text \<open>\<open>chunk.decode('latin1')\<close>: byte \<open>b\<close> becomes code point \<open>b\<close>.\<close>

definition latin1_decode :: "bytes \<Rightarrow> pystr" where
  "latin1_decode bs = map unat bs"

text \<open>\<open>chunk_data.encode('latin1')\<close>: raises for a code point above 255.\<close>

definition latin1_encode :: "pystr \<Rightarrow> exn + bytes" where
  "latin1_encode s =
     (if list_all (\<lambda>c. c < 256) s then Inr (map of_nat s) else Inl UnicodeEncodeError)"

text \<open>Messages client to server, and server to client, with the fields of the JSON objects.\<close>

datatype client_msg =
    Register string
  | File_chunk string int int pystr
  | File_complete string int int
  | Error_msg string string
  | Pong

datatype server_msg =
    Registered string
  | Download_request string string
  | Ping

section \<open>Paths\<close>

text \<open>
  \<open>pathlib\<close> on a POSIX system: a path is a root and the components that are neither
  empty nor \<open>.\<close>. \<open>path_of s\<close> is \<open>str(Path(s))\<close> and \<open>path_div a b\<close> is
  \<open>str(Path(a) / b)\<close>, where an absolute right operand replaces the left one.
\<close>

fun split_slash :: "string \<Rightarrow> string list" where
  "split_slash [] = [[]]"
| "split_slash (c # cs) =
     (if c = CHR ''/'' then [] # split_slash cs
      else (case split_slash cs of [] \<Rightarrow> [[c]] | p # ps \<Rightarrow> (c # p) # ps))"

definition path_root :: "string \<Rightarrow> string" where
  "path_root s =
     (if take 2 s = ''//'' \<and> take 3 s \<noteq> ''///'' then ''//''
      else if take 1 s = ''/'' then ''/'' else [])"

definition path_parts :: "string \<Rightarrow> string list" where
  "path_parts s = filter (\<lambda>p. p \<noteq> [] \<and> p \<noteq> ''.'') (split_slash s)"

fun join_slash :: "string list \<Rightarrow> string" where
  "join_slash [] = []"
| "join_slash [p] = p"
| "join_slash (p # q # ps) = p @ ''/'' @ join_slash (q # ps)"

definition path_str :: "string \<Rightarrow> string list \<Rightarrow> string" where
  "path_str r ps = (if r = [] \<and> ps = [] then ''.'' else r @ join_slash ps)"

definition path_of :: "string \<Rightarrow> string" where
  "path_of s = path_str (path_root s) (path_parts s)"

definition path_div :: "string \<Rightarrow> string \<Rightarrow> string" where
  "path_div a b =
     (if path_root b \<noteq> [] then path_of b
      else path_str (path_root a) (path_parts a @ path_parts b))"

section \<open>Client: \<open>FileDownloadClient.send_file\<close>\<close>

text \<open>
  What the client's file system holds at a path that exists: the size \<open>stat()\<close> reports,
  and what \<open>open(path, 'rb')\<close> gives, an exception (a directory, a file that may not be
  read) or the bytes the reads return. The two are independent: for files of \<open>/proc\<close> and
  \<open>/sys\<close> the size reported is not the number of bytes read.
\<close>

record node =
  st_size :: int
  opened :: "exn + bytes"

text \<open>
  \<open>f.read(n)\<close> on a file opened with \<open>'rb'\<close>, given the bytes not yet read: the bytes
  returned and the bytes left. A size of \<open>-1\<close> reads to the end of the file and a smaller
  one raises ValueError. The read allocates \<open>n\<close> bytes before it reads: a 64-bit CPython
  raises OverflowError above \<open>max_read_size\<close>, and MemoryError above \<open>mem\<close>, the largest
  block the machine grants.
\<close>

definition max_read_size :: int where
  "max_read_size = 2 ^ 63 - 34"

definition f_read :: "int \<Rightarrow> int \<Rightarrow> bytes \<Rightarrow> exn + (bytes \<times> bytes)" where
  "f_read mem n rest =
     (if n < - 1 then Inl ValueError
      else if n = - 1 then
        (if mem < int (length rest) then Inl MemoryError else Inr (rest, []))
      else if max_read_size < n then Inl OverflowError
      else if mem < n then Inl MemoryError
      else Inr (take (nat n) rest, drop (nat n) rest))"

lemma f_read_shorter:
  "f_read mem n rest = Inr (chunk, rest') \<Longrightarrow> chunk \<noteq> [] \<Longrightarrow> length rest' < length rest"
  by (auto simp: f_read_def split: if_splits)

text \<open>
  The tunnel, as the client sees it during one \<open>send_file\<close>: the number of messages it
  still accepts before it closes, None for a tunnel that stays open. \<open>send_json\<close> on a
  closed tunnel raises and sends nothing.
\<close>

definition tunnel_closed :: "nat option \<Rightarrow> bool" where
  "tunnel_closed tun = (tun = Some 0)"

definition after_send :: "nat option \<Rightarrow> nat option" where
  "after_send tun = map_option (\<lambda>k. k - 1) tun"

primrec after_sends :: "nat \<Rightarrow> nat option \<Rightarrow> nat option" where
  "after_sends 0 tun = tun"
| "after_sends (Suc n) tun = after_sends n (after_send tun)"

text \<open>
  The \<open>while True\<close> loop of \<open>send_file\<close>: the messages sent, then the exception raised or
  the final \<open>chunk_num\<close>. After each chunk is sent the progress line divides by
  \<open>file_size\<close>, which raises when that is 0. (\<open>bytes_sent\<close> feeds only that line and is
  left out.)
\<close>

function send_loop ::
  "int \<Rightarrow> int \<Rightarrow> nat option \<Rightarrow> int \<Rightarrow> string \<Rightarrow> int \<Rightarrow> int \<Rightarrow> bytes
     \<Rightarrow> client_msg list \<times> (exn + int)" where
  "send_loop chunk_size mem tun file_size did tot chunk_num rest =
     (case f_read mem chunk_size rest of
        Inl e \<Rightarrow> ([], Inl e)
      | Inr (chunk, rest') \<Rightarrow>
          if chunk = [] then ([], Inr chunk_num)
          else if tunnel_closed tun then ([], Inl ConnectionResetError)
          else if file_size = 0 then
            ([File_chunk did (chunk_num + 1) tot (latin1_decode chunk)],
             Inl ZeroDivisionError)
          else
            (let (ms, r) =
                   send_loop chunk_size mem (after_send tun) file_size did tot
                     (chunk_num + 1) rest'
             in (File_chunk did (chunk_num + 1) tot (latin1_decode chunk) # ms, r)))"
  by pat_completeness auto
termination
  by (relation "measure (\<lambda>(cs, mem, tun, fsz, did, tot, n, rest). length rest)")
     (auto dest: f_read_shorter)

declare send_loop.simps [simp del]

definition total_chunks_of :: "int \<Rightarrow> int \<Rightarrow> int" where
  "total_chunks_of file_size chunk_size = (file_size + chunk_size - 1) div chunk_size"

text \<open>
  \<open>send_file\<close> on a client whose file system is \<open>fs\<close>, keyed by \<open>str(Path(p))\<close>: the
  messages put on the tunnel and the exception that leaves the procedure, if any.
  \<open>file_size\<close> is the size \<open>stat()\<close> reports, taken before the file is opened. Python's
  \<open>//\<close> raises on a zero divisor, where \<open>div\<close> would return 0.
\<close>

definition send_file ::
  "int \<Rightarrow> int \<Rightarrow> nat option \<Rightarrow> (string \<rightharpoonup> node) \<Rightarrow> string \<Rightarrow> string
     \<Rightarrow> client_msg list \<times> exn option" where
  "send_file chunk_size mem tun fs did file_path =
     (let p = path_of file_path in
      case fs p of
        None \<Rightarrow> ([], Some (FileNotFoundError (''File not found: '' @ p)))
      | Some nd \<Rightarrow>
          (let file_size = st_size nd in
           if chunk_size = 0 then ([], Some ZeroDivisionError)
           else
             (let total_chunks = total_chunks_of file_size chunk_size in
              case opened nd of
                Inl e \<Rightarrow> ([], Some e)
              | Inr content \<Rightarrow>
                  (let (ms, r) =
                         send_loop chunk_size mem tun file_size did total_chunks 0 content
                   in case r of
                        Inl e \<Rightarrow> (ms, Some e)
                      | Inr chunk_num \<Rightarrow>
                          if tunnel_closed (after_sends (length ms) tun)
                          then (ms, Some ConnectionResetError)
                          else (ms @ [File_complete did file_size chunk_num], None)))))"

section \<open>Server: timestamps\<close>

record datetime =
  year :: nat
  month :: nat
  day :: nat
  hour :: nat
  minute :: nat
  second :: nat
  microsecond :: nat

fun show_nat :: "nat \<Rightarrow> string" where
  "show_nat n =
     (if n < 10 then [''0123456789'' ! n]
      else show_nat (n div 10) @ [''0123456789'' ! (n mod 10)])"

declare show_nat.simps [simp del]

definition zpad :: "nat \<Rightarrow> nat \<Rightarrow> string" where
  "zpad w n = replicate (w - length (show_nat n)) (CHR ''0'') @ show_nat n"

text \<open>\<open>strftime('%Y%m%d_%H%M%S')\<close>, for the four-digit years \<open>utcnow\<close> returns.\<close>

definition strftime :: "datetime \<Rightarrow> string" where
  "strftime t =
     zpad 4 (year t) @ zpad 2 (month t) @ zpad 2 (day t) @ ''_'' @
     zpad 2 (hour t) @ zpad 2 (minute t) @ zpad 2 (second t)"

definition isoformat :: "datetime \<Rightarrow> string" where
  "isoformat t =
     zpad 4 (year t) @ ''-'' @ zpad 2 (month t) @ ''-'' @ zpad 2 (day t) @ ''T'' @
     zpad 2 (hour t) @ '':'' @ zpad 2 (minute t) @ '':'' @ zpad 2 (second t) @
     (if microsecond t = 0 then [] else ''.'' @ zpad 6 (microsecond t))"

section \<open>Server: \<open>FileDownloadServer\<close>\<close>

datatype status = Downloading | Completed | Failed

text \<open>
  One entry of \<open>self.downloads\<close>. The keys \<open>completed_at\<close>, \<open>total_size\<close> and \<open>error\<close>
  are absent from the dictionary until a handler sets them.
\<close>

record download_info =
  download_id :: string
  client_id :: string
  file_path :: string
  remote_path :: string
  status :: status
  started_at :: string
  chunks_received :: int
  completed_at :: "string option"
  total_size :: "int option"
  error :: "string option"

text \<open>
  The server object with what its handlers act on: the registry \<open>connected_clients\<close>
  (identity to tunnel, a tunnel being a number), the tracker \<open>downloads\<close>, the messages
  sent so far with the tunnel of each, and the server's disk: the regular files with their
  bytes, and for each path the exception \<open>open(path, 'ab')\<close> raises there (a directory
  that does not exist, a name too long, no permission), None where the open succeeds. The
  handlers create no directory, so they leave \<open>open_fails\<close> as it is.
\<close>

record server =
  download_dir :: string
  connected_clients :: "string \<rightharpoonup> nat"
  downloads :: "string \<rightharpoonup> download_info"
  files :: "string \<rightharpoonup> bytes"
  open_fails :: "string \<rightharpoonup> exn"
  sent :: "(nat \<times> server_msg) list"

definition file_contents :: "(string \<rightharpoonup> bytes) \<Rightarrow> string \<Rightarrow> bytes" where
  "file_contents fs p = (case fs p of None \<Rightarrow> [] | Some bs \<Rightarrow> bs)"

text \<open>
  \<open>handle_file_chunk\<close>. \<open>open(file_path, 'ab')\<close> comes first: it raises, or it creates
  an absent file; then \<open>encode\<close> can raise; then the write appends (a write to a file
  that has opened is taken to succeed: the disk is not full).
\<close>

definition handle_file_chunk ::
  "server \<Rightarrow> string \<Rightarrow> pystr \<Rightarrow> int \<Rightarrow> exn option \<times> server" where
  "handle_file_chunk srv did chunk_data chunk_num =
     (case downloads srv did of
        None \<Rightarrow> (None, srv)
      | Some info \<Rightarrow>
          (let path = file_path info in
           case open_fails srv path of
             Some e \<Rightarrow> (Some e, srv)
           | None \<Rightarrow>
               (let old = file_contents (files srv) path
                in case latin1_encode chunk_data of
                     Inl e \<Rightarrow> (Some e, srv\<lparr>files := (files srv)(path \<mapsto> old)\<rparr>)
                   | Inr bs \<Rightarrow>
                       (None, srv\<lparr>files := (files srv)(path \<mapsto> old @ bs),
                                   downloads := (downloads srv)
                                     (did \<mapsto> info\<lparr>chunks_received := chunk_num\<rparr>)\<rparr>))))"

definition handle_file_complete :: "server \<Rightarrow> datetime \<Rightarrow> string \<Rightarrow> int \<Rightarrow> server" where
  "handle_file_complete srv now did total_sz =
     (case downloads srv did of
        None \<Rightarrow> srv
      | Some info \<Rightarrow>
          srv\<lparr>downloads := (downloads srv)
                (did \<mapsto> info\<lparr>status := Completed,
                               completed_at := Some (isoformat now),
                               total_size := Some total_sz\<rparr>)\<rparr>)"

definition handle_client_error :: "server \<Rightarrow> string \<Rightarrow> string \<Rightarrow> server" where
  "handle_client_error srv did error_msg =
     (case downloads srv did of
        None \<Rightarrow> srv
      | Some info \<Rightarrow>
          srv\<lparr>downloads := (downloads srv)
                (did \<mapsto> info\<lparr>status := Failed, error := Some error_msg\<rparr>)\<rparr>)"

text \<open>
  The body of the \<open>async for\<close> of \<open>websocket_handler\<close> for one text message on tunnel
  \<open>ws\<close>; \<open>cid\<close> is the handler's local variable \<open>client_id\<close>, None until a registration.
  A message of any other type is skipped.
\<close>

fun on_message ::
  "nat \<Rightarrow> datetime \<Rightarrow> client_msg \<Rightarrow> string option \<times> server
     \<Rightarrow> exn option \<times> string option \<times> server" where
  "on_message ws now (Register c) (cid, srv) =
     (None, Some c,
      srv\<lparr>connected_clients := (connected_clients srv)(c \<mapsto> ws),
          sent := sent srv @ [(ws, Registered ''Successfully registered'')]\<rparr>)"
| "on_message ws now (File_chunk did chunk_num tot chunk_data) (cid, srv) =
     (let (e, srv') = handle_file_chunk srv did chunk_data chunk_num in (e, cid, srv'))"
| "on_message ws now (File_complete did total_sz tot) (cid, srv) =
     (None, cid, handle_file_complete srv now did total_sz)"
| "on_message ws now (Error_msg did m) (cid, srv) =
     (None, cid, handle_client_error srv did m)"
| "on_message ws now Pong (cid, srv) = (None, cid, srv)"

text \<open>The \<open>finally\<close> block of \<open>websocket_handler\<close>; it does not mention the tunnel.\<close>

definition on_disconnect :: "string option \<Rightarrow> server \<Rightarrow> server" where
  "on_disconnect cid srv =
     (case cid of
        None \<Rightarrow> srv
      | Some c \<Rightarrow>
          if c \<noteq> [] \<and> connected_clients srv c \<noteq> None
          then srv\<lparr>connected_clients := (connected_clients srv)(c := None)\<rparr>
          else srv)"

text \<open>The loop over the messages of one tunnel, each with its arrival time.\<close>

fun ws_loop ::
  "nat \<Rightarrow> (datetime \<times> client_msg) list \<Rightarrow> string option \<times> server
     \<Rightarrow> exn option \<times> string option \<times> server" where
  "ws_loop ws [] st = (None, st)"
| "ws_loop ws ((now, m) # ms) st =
     (case on_message ws now m st of
        (Some e, st') \<Rightarrow> (Some e, st')
      | (None, st') \<Rightarrow> ws_loop ws ms st')"

text \<open>One handler run from connection to cleanup, no other task running in between.\<close>

definition websocket_handler ::
  "nat \<Rightarrow> (datetime \<times> client_msg) list \<Rightarrow> server \<Rightarrow> exn option \<times> server" where
  "websocket_handler ws msgs srv =
     (case ws_loop ws msgs (None, srv) of
        (e, cid, srv') \<Rightarrow> (e, on_disconnect cid srv'))"

text \<open>
  Several tunnels at once. Each accepted tunnel has a handler task with its own
  \<open>client_id\<close>; the tasks take turns message by message on the one server object. An
  event is a tunnel being accepted, a message arriving on a tunnel, or a tunnel closing.
  The world is the local variable of every running handler and the server. A handler ends
  at the close of its tunnel or at an exception, and runs its \<open>finally\<close> block then.
\<close>

datatype event =
    Connect nat
  | Receive nat datetime client_msg
  | Disconnect nat

type_synonym world = "(nat \<rightharpoonup> string option) \<times> server"

fun step :: "event \<Rightarrow> world \<Rightarrow> world" where
  "step (Connect ws) (hs, srv) = (hs(ws \<mapsto> None), srv)"
| "step (Receive ws now m) (hs, srv) =
     (case hs ws of
        None \<Rightarrow> (hs, srv)
      | Some cid \<Rightarrow>
          (case on_message ws now m (cid, srv) of
             (None, cid', srv') \<Rightarrow> (hs(ws \<mapsto> cid'), srv')
           | (Some e, cid', srv') \<Rightarrow> (hs(ws := None), on_disconnect cid' srv')))"
| "step (Disconnect ws) (hs, srv) =
     (case hs ws of
        None \<Rightarrow> (hs, srv)
      | Some cid \<Rightarrow> (hs(ws := None), on_disconnect cid srv))"

fun run :: "event list \<Rightarrow> world \<Rightarrow> world" where
  "run [] w = w"
| "run (e # es) w = run es (step e w)"

text \<open>
  \<open>trigger_download\<close>. The request is the parsed JSON body, a field being None when its
  key is absent. The environment gives the UUID drawn, the two readings of the clock, and
  the text of the exception if sending on the tunnel raises.
\<close>

record request =
  req_client_id :: "string option"
  req_file_path :: "string option"

record env =
  uuid4 :: string
  utcnow_name :: datetime
  utcnow_started :: datetime
  send_raises :: "string option"

datatype response =
    Error_response nat string
  | Success_response string string

definition local_filename :: "string \<Rightarrow> datetime \<Rightarrow> string" where
  "local_filename cid now = cid @ ''_'' @ strftime now @ ''_file_to_download.txt''"

definition trigger_download :: "server \<Rightarrow> env \<Rightarrow> request \<Rightarrow> response \<times> server" where
  "trigger_download srv ev req =
     (let fp = (case req_file_path req of
                  None \<Rightarrow> ''$HOME/file_to_download.txt'' | Some p \<Rightarrow> p)
      in case req_client_id req of
           None \<Rightarrow> (Error_response 400 ''client_id is required'', srv)
         | Some cid \<Rightarrow>
             if cid = [] then (Error_response 400 ''client_id is required'', srv)
             else
               (case connected_clients srv cid of
                  None \<Rightarrow>
                    (Error_response 404 (''Client '' @ cid @ '' is not connected''), srv)
                | Some ws \<Rightarrow>
                    (let did = uuid4 ev;
                         local_path =
                           path_div (download_dir srv)
                             (local_filename cid (utcnow_name ev));
                         srv' = srv\<lparr>downloads := (downloads srv)
                                  (did \<mapsto>
                                     \<lparr>download_id = did, client_id = cid,
                                      file_path = local_path, remote_path = fp,
                                      status = Downloading,
                                      started_at = isoformat (utcnow_started ev),
                                      chunks_received = 0, completed_at = None,
                                      total_size = None, error = None\<rparr>)\<rparr>
                     in case send_raises ev of
                          Some e \<Rightarrow> (Error_response 500 e, srv')
                        | None \<Rightarrow>
                            (Success_response did
                               (''Download request sent to client '' @ cid),
                             srv'\<lparr>sent := sent srv' @
                                    [(ws, Download_request did fp)]\<rparr>))))"

section \<open>Vocabulary of the properties\<close>

text \<open>The payload a message carries: the \<open>data\<close> of a chunk, nothing for any other.\<close>

fun chunk_payload :: "client_msg \<Rightarrow> pystr" where
  "chunk_payload (File_chunk did n tot d) = d"
| "chunk_payload m = []"

text \<open>
  The sequence numbers, and the \<open>total_chunks\<close> fields, of the chunk messages of a list,
  in order.
\<close>

fun chunk_nums :: "client_msg list \<Rightarrow> int list" where
  "chunk_nums [] = []"
| "chunk_nums (File_chunk did n tot d # ms) = n # chunk_nums ms"
| "chunk_nums (m # ms) = chunk_nums ms"

fun chunk_totals :: "client_msg list \<Rightarrow> int list" where
  "chunk_totals [] = []"
| "chunk_totals (File_chunk did n tot d # ms) = tot # chunk_totals ms"
| "chunk_totals (m # ms) = chunk_totals ms"

text \<open>The status of a download in the tracker, None for an unknown identifier.\<close>

definition status_of :: "server \<Rightarrow> string \<Rightarrow> status option" where
  "status_of srv did = map_option status (downloads srv did)"

text \<open>
  The identity a tunnel registered last in a sequence of events, \<open>acc\<close> if it registered
  none.
\<close>

fun last_registered :: "nat \<Rightarrow> event list \<Rightarrow> string option \<Rightarrow> string option" where
  "last_registered ws [] acc = acc"
| "last_registered ws (Receive w now (Register c) # evs) acc =
     last_registered ws evs (if w = ws then Some c else acc)"
| "last_registered ws (e # evs) acc = last_registered ws evs acc"

text \<open>\<open>os.path.basename\<close> and \<open>os.path.dirname\<close>: what follows and precedes the last slash.\<close>

definition basename :: "string \<Rightarrow> string" where
  "basename p = rev (takeWhile (\<lambda>c. c \<noteq> CHR ''/'') (rev p))"

definition dirname :: "string \<Rightarrow> string" where
  "dirname p =
     (let h = rev (dropWhile (\<lambda>c. c \<noteq> CHR ''/'') (rev p))
      in if list_all (\<lambda>c. c = CHR ''/'') h then h
         else rev (dropWhile (\<lambda>c. c = CHR ''/'') (rev h)))"

text \<open>
  A disk on which the directories \<open>ds\<close> exist and are writable, and nothing else stands
  in the way: a file opens for appending when its directory is one of them.
\<close>

definition in_dirs :: "string list \<Rightarrow> string \<rightharpoonup> exn" where
  "in_dirs ds p =
     (if dirname p \<in> set ds then None
      else Some (FileNotFoundError
                   (''[Errno 2] No such file or directory: '' @ [CHR 0x27] @ p @ [CHR 0x27])))"

subsection \<open>A small scenario\<close>

definition noon :: datetime where
  "noon = \<lparr>year = 2026, month = 11, day = 4, hour = 12, minute = 0, second = 0,
           microsecond = 0\<rparr>"

text \<open>A server just started: \<open>__init__\<close> has created the directory \<open>downloads\<close>.\<close>

definition fresh_server :: server where
  "fresh_server =
     \<lparr>download_dir = ''./downloads'', connected_clients = Map.empty,
      downloads = Map.empty, files = Map.empty, open_fails = in_dirs [''downloads''],
      sent = []\<rparr>"

text \<open>Tunnel 1 has registered as \<open>site-7\<close>.\<close>

definition site7_server :: server where
  "site7_server = snd (snd (on_message 1 noon (Register ''site-7'') (None, fresh_server)))"

definition env_d1 :: env where
  "env_d1 = \<lparr>uuid4 = ''d1'', utcnow_name = noon, utcnow_started = noon,
             send_raises = None\<rparr>"

text \<open>A download \<open>d1\<close> of the default remote path has been dispatched to \<open>site-7\<close>.\<close>

definition dispatched_server :: server where
  "dispatched_server =
     snd (trigger_download site7_server env_d1
            \<lparr>req_client_id = Some ''site-7'', req_file_path = None\<rparr>)"

definition d1_path :: string where
  "d1_path = ''downloads/site-7_20261104_120000_file_to_download.txt''"

text \<open>
  A client with one file of three bytes, sent in chunks of two, a file of \<open>/sys\<close>
  whose four bytes \<open>stat()\<close> reports as 4096, and a directory.
\<close>

definition client_files :: "string \<rightharpoonup> node" where
  "client_files =
     [''/home/u/file_to_download.txt'' \<mapsto> \<lparr>st_size = 3, opened = Inr [0, 255, 128]\<rparr>,
      ''/sys/devices/system/cpu/online'' \<mapsto>
         \<lparr>st_size = 4096, opened = Inr [48, 45, 51, 10]\<rparr>,
      ''/home/u'' \<mapsto> \<lparr>st_size = 4096, opened = Inl IsADirectoryError\<rparr>]"

definition d1_messages :: "(datetime \<times> client_msg) list" where
  "d1_messages =
     [(noon, File_chunk ''d1'' 1 2 [0, 255]),
      (noon, File_chunk ''d1'' 2 2 [128]),
      (noon, File_complete ''d1'' 3 2)]"

text \<open>A second dispatch, half a second after the first.\<close>

definition env_d2 :: env where
  "env_d2 = \<lparr>uuid4 = ''d2'', utcnow_name = noon\<lparr>microsecond := 500000\<rparr>,
             utcnow_started = noon\<lparr>microsecond := 500000\<rparr>, send_raises = None\<rparr>"

text \<open>
  Tunnel 1 registers as \<open>site-7\<close>, then tunnel 2 connects and registers as \<open>site-7\<close> too,
  replacing the entry of tunnel 1, which stays open.
\<close>

definition reregistration :: "event list" where
  "reregistration =
     [Receive 1 noon (Register ''site-7''), Connect 2, Receive 2 noon (Register ''site-7'')]"

definition reregistered :: world where
  "reregistered = run reregistration (Map.empty(1 \<mapsto> None), fresh_server)"

text \<open>
  A client registers as \<open>a/b\<close> on tunnel 3 and a download \<open>d3\<close> is dispatched to it: its
  destination lies in a directory \<open>downloads/a\<close> that nothing has created.
\<close>

definition slash_server :: server where
  "slash_server =
     snd (trigger_download
            (snd (snd (on_message 3 noon (Register ''a/b'') (None, fresh_server))))
            (env_d1\<lparr>uuid4 := ''d3''\<rparr>)
            \<lparr>req_client_id = Some ''a/b'', req_file_path = None\<rparr>)"

section \<open>Lemmas on the client\<close>

lemma latin1_roundtrip: "latin1_encode (latin1_decode bs) = Inr bs"
proof -
  have "list_all (\<lambda>c. c < 256) (map unat bs)"
    using unsigned_less [where 'b = 8 and 'a = nat] by (simp add: list_all_iff)
  moreover have "map of_nat (map unat bs) = bs"
    by (simp add: map_idI)
  ultimately show ?thesis
    by (simp add: latin1_encode_def latin1_decode_def)
qed

lemma div_ceil:
  fixes a b :: int
  assumes "0 < b"
  shows "(a + b - 1) div b = - (- a div b)"
proof -
  define q r where "q = a div b" and "r = a mod b"
  have r: "0 \<le> r" "r < b"
    using assms by (simp_all add: r_def)
  have "a + b - 1 = (r + b - 1) + b * q"
    by (simp add: q_def r_def)
  then have "(a + b - 1) div b = ((r + b - 1) + b * q) div b"
    by (rule arg_cong)
  also have "\<dots> = q + (r + b - 1) div b"
    using assms by (subst div_mult_self2) simp_all
  finally have lhs: "(a + b - 1) div b = q + (r + b - 1) div b" .
  show ?thesis
  proof (cases "r = 0")
    case True
    then have "(r + b - 1) div b = 0"
      using assms by (simp add: div_pos_pos_trivial)
    moreover have "- a div b = - q"
      using True assms by (simp add: zdiv_zminus1_eq_if q_def r_def)
    ultimately show ?thesis using lhs by simp
  next
    case False
    have "r + b - 1 = (r - 1) + b * 1" by simp
    then have "(r + b - 1) div b = ((r - 1) + b * 1) div b"
      by (rule arg_cong)
    also have "\<dots> = 1 + (r - 1) div b"
      using assms by (subst div_mult_self2) simp_all
    also have "(r - 1) div b = 0"
      using r False by (simp add: div_pos_pos_trivial)
    finally have "(r + b - 1) div b = 1" by simp
    moreover have "- a div b = - q - 1"
      using False assms by (simp add: zdiv_zminus1_eq_if q_def r_def)
    ultimately show ?thesis using lhs by simp
  qed
qed

lemma f_read_split:
  "f_read mem n rest = Inr (chunk, rest') \<Longrightarrow> rest = chunk @ rest'"
  by (auto simp: f_read_def split: if_splits)

lemma f_read_at_end:
  "n \<noteq> 0 \<Longrightarrow> f_read mem n rest = Inr ([], rest') \<Longrightarrow> rest = []"
  by (auto simp: f_read_def split: if_splits)

lemma f_read_in_bounds:
  "1 \<le> n \<Longrightarrow> n \<le> max_read_size \<Longrightarrow> n \<le> mem \<Longrightarrow>
   f_read mem n rest = Inr (take (nat n) rest, drop (nat n) rest)"
  by (simp add: f_read_def)

text \<open>The ways one turn of the loop can go.\<close>

lemma send_loop_cases:
  obtains (failed) e where "send_loop cs mem tun fsz did tot n rest = ([], Inl e)"
  | (ended) rest' where "f_read mem cs rest = Inr ([], rest')"
      "send_loop cs mem tun fsz did tot n rest = ([], Inr n)"
  | (halted) chunk where
      "send_loop cs mem tun fsz did tot n rest =
         ([File_chunk did (n + 1) tot (latin1_decode chunk)], Inl ZeroDivisionError)"
  | (more) chunk rest' ms r where
      "f_read mem cs rest = Inr (chunk, rest')" "chunk \<noteq> []" "\<not> tunnel_closed tun"
      "fsz \<noteq> 0"
      "send_loop cs mem (after_send tun) fsz did tot (n + 1) rest' = (ms, r)"
      "send_loop cs mem tun fsz did tot n rest =
         (File_chunk did (n + 1) tot (latin1_decode chunk) # ms, r)"
proof (cases "f_read mem cs rest")
  case (Inl e)
  then have "send_loop cs mem tun fsz did tot n rest = ([], Inl e)"
    by (subst send_loop.simps) simp
  then show ?thesis by (rule failed)
next
  case (Inr p)
  obtain chunk rest' where rd: "f_read mem cs rest = Inr (chunk, rest')"
    using Inr by (cases p) simp
  show ?thesis
  proof (cases "chunk = []")
    case True
    have "send_loop cs mem tun fsz did tot n rest = ([], Inr n)"
      by (subst send_loop.simps) (simp add: rd True)
    with rd True show ?thesis by (auto intro: ended)
  next
    case False
    show ?thesis
    proof (cases "tunnel_closed tun")
      case True
      have "send_loop cs mem tun fsz did tot n rest = ([], Inl ConnectionResetError)"
        by (subst send_loop.simps) (simp add: rd False True)
      then show ?thesis by (rule failed)
    next
      case up: False
      show ?thesis
      proof (cases "fsz = 0")
        case True
        have "send_loop cs mem tun fsz did tot n rest =
                ([File_chunk did (n + 1) tot (latin1_decode chunk)], Inl ZeroDivisionError)"
          by (subst send_loop.simps) (simp add: rd False up True)
        then show ?thesis by (rule halted)
      next
        case nz: False
        obtain ms r where
          rec: "send_loop cs mem (after_send tun) fsz did tot (n + 1) rest' = (ms, r)"
          by (cases "send_loop cs mem (after_send tun) fsz did tot (n + 1) rest'")
        have "send_loop cs mem tun fsz did tot n rest =
                (File_chunk did (n + 1) tot (latin1_decode chunk) # ms, r)"
          by (subst send_loop.simps) (simp add: rd False up nz rec)
        with rd False up nz rec show ?thesis by (rule more)
      qed
    qed
  qed
qed

text \<open>A loop that ends without an exception has sent the bytes it was given, in order.\<close>

lemma send_loop_finished:
  "cs \<noteq> 0 \<Longrightarrow> send_loop cs mem tun fsz did tot n rest = (ms, Inr k) \<Longrightarrow>
   k = n + int (length ms) \<and> concat (map chunk_payload ms) = latin1_decode rest"
proof (induction cs mem tun fsz did tot n rest arbitrary: ms k rule: send_loop.induct)
  case (1 cs mem tun fsz did tot n rest)
  show ?case
  proof (cases rule: send_loop_cases [of cs mem tun fsz did tot n rest])
    case (failed e)
    with "1.prems"(2) show ?thesis by simp
  next
    case (ended rest')
    have "rest = []"
      using ended(1) "1.prems"(1) by (auto dest: f_read_at_end)
    with ended(2) "1.prems"(2) show ?thesis
      by (simp add: latin1_decode_def)
  next
    case (halted chunk)
    with "1.prems"(2) show ?thesis by simp
  next
    case (more chunk rest' ms' r)
    from more(6) "1.prems"(2)
    have ms: "ms = File_chunk did (n + 1) tot (latin1_decode chunk) # ms'" and r: "r = Inr k"
      by simp_all
    have split: "rest = chunk @ rest'"
      using more(1) by (rule f_read_split)
    from "1.IH" [OF more(1) refl more(2,3,4) "1.prems"(1)] more(5) r
    have "k = n + 1 + int (length ms')"
      and "concat (map chunk_payload ms') = latin1_decode rest'"
      by simp_all
    then show ?thesis
      using ms split by (simp add: latin1_decode_def)
  qed
qed

text \<open>
  On a tunnel that stays open, with a chunk size between 1 and what a read can allocate,
  and a size from \<open>stat()\<close> that is not 0 unless the file is empty, the loop ends without
  an exception.
\<close>

lemma after_sends_open [simp]: "after_sends n None = None"
  by (induction n) (simp_all add: after_send_def)

lemma send_loop_succeeds:
  "1 \<le> cs \<Longrightarrow> cs \<le> max_read_size \<Longrightarrow> cs \<le> mem \<Longrightarrow> rest = [] \<or> fsz \<noteq> 0 \<Longrightarrow>
   tun = None \<Longrightarrow>
   \<exists>ms k. send_loop cs mem tun fsz did tot n rest = (ms, Inr k)"
proof (induction cs mem tun fsz did tot n rest rule: send_loop.induct)
  case (1 cs mem tun fsz did tot n rest)
  define chunk where "chunk = take (nat cs) rest"
  define rest' where "rest' = drop (nat cs) rest"
  have rd: "f_read mem cs rest = Inr (chunk, rest')"
    using "1.prems"(1,2,3) by (simp add: f_read_in_bounds chunk_def rest'_def)
  have up: "\<not> tunnel_closed tun" and still: "after_send tun = None"
    using "1.prems"(5) by (simp_all add: tunnel_closed_def after_send_def)
  show ?case
  proof (cases "chunk = []")
    case True
    have "send_loop cs mem tun fsz did tot n rest = ([], Inr n)"
      by (subst send_loop.simps) (simp add: rd True)
    then show ?thesis by simp
  next
    case False
    then have "rest \<noteq> []" by (auto simp: chunk_def)
    with "1.prems"(4) have nz: "fsz \<noteq> 0" by simp
    then have "rest' = [] \<or> fsz \<noteq> 0" by simp
    from "1.IH" [OF rd refl False up nz "1.prems"(1,2,3) this still]
    obtain ms k where
      rec: "send_loop cs mem (after_send tun) fsz did tot (n + 1) rest' = (ms, Inr k)"
      by blast
    have "send_loop cs mem tun fsz did tot n rest =
            (File_chunk did (n + 1) tot (latin1_decode chunk) # ms, Inr k)"
      by (subst send_loop.simps) (simp add: rd False up nz rec)
    then show ?thesis by simp
  qed
qed

text \<open>
  Every chunk message of the loop, finished or not, carries the \<open>total_chunks\<close> computed
  before the loop, and the chunks are numbered from \<open>chunk_num + 1\<close> on.
\<close>

lemma chunk_totals_send_loop:
  "chunk_totals (fst (send_loop cs mem tun fsz did tot n rest)) =
     replicate (length (chunk_totals (fst (send_loop cs mem tun fsz did tot n rest)))) tot"
proof (induction cs mem tun fsz did tot n rest rule: send_loop.induct)
  case (1 cs mem tun fsz did tot n rest)
  show ?case
  proof (cases rule: send_loop_cases [of cs mem tun fsz did tot n rest])
    case (more chunk rest' ms r)
    from "1.IH" [OF more(1) refl more(2,3,4)] more(5)
    have "chunk_totals ms = replicate (length (chunk_totals ms)) tot" by simp
    then show ?thesis by (simp add: more(6))
  qed simp_all
qed

lemma chunk_nums_send_loop:
  "chunk_nums (fst (send_loop cs mem tun fsz did tot n rest)) =
     map (\<lambda>i. n + 1 + int i)
       [0..<length (chunk_nums (fst (send_loop cs mem tun fsz did tot n rest)))]"
proof (induction cs mem tun fsz did tot n rest rule: send_loop.induct)
  case (1 cs mem tun fsz did tot n rest)
  show ?case
  proof (cases rule: send_loop_cases [of cs mem tun fsz did tot n rest])
    case (more chunk rest' ms r)
    from "1.IH" [OF more(1) refl more(2,3,4)] more(5)
    have ih: "chunk_nums ms = map (\<lambda>i. n + 1 + 1 + int i) [0..<length (chunk_nums ms)]"
      by simp
    have "map (\<lambda>i. n + 1 + int i) [0..<Suc (length (chunk_nums ms))] =
            (n + 1) # map (\<lambda>i. n + 1 + 1 + int i) [0..<length (chunk_nums ms)]"
      by (simp add: upt_conv_Cons map_Suc_upt [symmetric] del: upt_Suc)
    with ih show ?thesis
      by (simp add: more(6) del: upt_Suc)
  qed simp_all
qed

lemma chunk_nums_append: "chunk_nums (xs @ ys) = chunk_nums xs @ chunk_nums ys"
  by (induction xs rule: chunk_nums.induct) simp_all

lemma chunk_totals_append: "chunk_totals (xs @ ys) = chunk_totals xs @ chunk_totals ys"
  by (induction xs rule: chunk_totals.induct) simp_all


text \<open>The chunk messages of \<open>send_file\<close> are those of its loop, whatever the outcome.\<close>

lemma send_file_cases:
  obtains (absent) e where "send_file cs mem tun fs did fp = ([], Some e)"
  | (looped) nd content ms r where
      "fs (path_of fp) = Some nd" "cs \<noteq> 0" "opened nd = Inr content"
      "send_loop cs mem tun (st_size nd) did (total_chunks_of (st_size nd) cs) 0 content
         = (ms, r)"
      "send_file cs mem tun fs did fp =
         (case r of Inl e \<Rightarrow> (ms, Some e)
          | Inr k \<Rightarrow>
              if tunnel_closed (after_sends (length ms) tun)
              then (ms, Some ConnectionResetError)
              else (ms @ [File_complete did (st_size nd) k], None))"
proof (cases "fs (path_of fp)")
  case None
  then have "send_file cs mem tun fs did fp =
               ([], Some (FileNotFoundError (''File not found: '' @ path_of fp)))"
    by (simp add: send_file_def)
  then show ?thesis by (rule absent)
next
  case (Some nd)
  show ?thesis
  proof (cases "cs = 0")
    case True
    with Some have "send_file cs mem tun fs did fp = ([], Some ZeroDivisionError)"
      by (simp add: send_file_def)
    then show ?thesis by (rule absent)
  next
    case nz: False
    show ?thesis
    proof (cases "opened nd")
      case (Inl e)
      with Some nz have "send_file cs mem tun fs did fp = ([], Some e)"
        by (simp add: send_file_def)
      then show ?thesis by (rule absent)
    next
      case (Inr content)
      obtain ms r where sl:
        "send_loop cs mem tun (st_size nd) did (total_chunks_of (st_size nd) cs) 0 content
           = (ms, r)"
        by (cases "send_loop cs mem tun (st_size nd) did (total_chunks_of (st_size nd) cs) 0
                     content")
      have "send_file cs mem tun fs did fp =
         (case r of Inl e \<Rightarrow> (ms, Some e)
          | Inr k \<Rightarrow>
              if tunnel_closed (after_sends (length ms) tun)
              then (ms, Some ConnectionResetError)
              else (ms @ [File_complete did (st_size nd) k], None))"
        using Some nz Inr sl by (simp add: send_file_def)
      with Some nz Inr sl show ?thesis by (rule looped)
    qed
  qed
qed

lemma send_file_finished:
  assumes "send_file cs mem tun fs did fp = (msgs, None)"
  obtains nd content ms k where
    "fs (path_of fp) = Some nd" "cs \<noteq> 0" "opened nd = Inr content"
    "send_loop cs mem tun (st_size nd) did (total_chunks_of (st_size nd) cs) 0 content
       = (ms, Inr k)"
    "msgs = ms @ [File_complete did (st_size nd) k]"
proof (cases rule: send_file_cases [of cs mem tun fs did fp])
  case (absent e)
  with assms show ?thesis by simp
next
  case (looped nd content ms r)
  show ?thesis
  proof (cases r)
    case (Inl e)
    with looped(5) assms show ?thesis by simp
  next
    case (Inr k)
    with looped(5) assms have "msgs = ms @ [File_complete did (st_size nd) k]"
      by (simp split: if_splits)
    with looped(1,2,3,4) Inr that show ?thesis by blast
  qed
qed

lemma send_file_succeeds:
  assumes "1 \<le> cs" and "cs \<le> max_read_size" and "cs \<le> mem"
    and "fs (path_of fp) = Some nd" and "opened nd = Inr content"
    and "content = [] \<or> st_size nd \<noteq> 0"
  shows "\<exists>msgs. send_file cs mem None fs did fp = (msgs, None)"
proof -
  obtain ms k where
    "send_loop cs mem None (st_size nd) did (total_chunks_of (st_size nd) cs) 0 content
       = (ms, Inr k)"
    using send_loop_succeeds [OF assms(1,2,3,6) refl] by blast
  then have "send_file cs mem None fs did fp =
               (ms @ [File_complete did (st_size nd) k], None)"
    using assms(1,4,5) by (simp add: send_file_def tunnel_closed_def)
  then show ?thesis by blast
qed

section \<open>Lemmas on the server\<close>

lemma handle_file_chunk_known:
  "downloads srv did = Some info \<Longrightarrow> open_fails srv (file_path info) = None \<Longrightarrow>
   handle_file_chunk srv did (latin1_decode bs) n =
     (None, srv\<lparr>files := (files srv)
                    (file_path info \<mapsto> file_contents (files srv) (file_path info) @ bs),
                 downloads := (downloads srv)(did \<mapsto> info\<lparr>chunks_received := n\<rparr>)\<rparr>)"
  by (simp add: handle_file_chunk_def latin1_roundtrip Let_def)

lemma files_handle_file_complete [simp]:
  "files (handle_file_complete srv now did n) = files srv"
  by (simp add: handle_file_complete_def split: option.splits)

text \<open>
  The server takes the chunk messages of a finished loop, in order, for a download it
  knows and whose destination opens: it raises nothing and appends the bytes.
\<close>

lemma ws_loop_chunks:
  assumes "cs \<noteq> 0"
    and "send_loop cs mem tun fsz did tot n rest = (ms, Inr k)"
    and "downloads srv did = Some info"
    and "open_fails srv (file_path info) = None"
    and "map snd tms = ms"
  shows "\<exists>srv' cr.
           ws_loop ws (tms @ tl_msgs) (cid, srv) = ws_loop ws tl_msgs (cid, srv') \<and>
           file_contents (files srv') (file_path info) =
             file_contents (files srv) (file_path info) @ rest \<and>
           downloads srv' did = Some (info\<lparr>chunks_received := cr\<rparr>)"
  using assms
proof (induction cs mem tun fsz did tot n rest arbitrary: tms srv info ms
         rule: send_loop.induct)
  case (1 cs mem tun fsz did tot n rest)
  show ?case
  proof (cases rule: send_loop_cases [of cs mem tun fsz did tot n rest])
    case (failed e)
    with "1.prems"(2) show ?thesis by simp
  next
    case (ended rest0)
    with "1.prems"(2) have "ms = []" by simp
    moreover have "rest = []"
      using ended(1) "1.prems"(1) by (auto dest: f_read_at_end)
    moreover have "info\<lparr>chunks_received := chunks_received info\<rparr> = info"
      by simp
    ultimately show ?thesis
      using "1.prems"(3,5) by (metis append_Nil append_Nil2 map_is_Nil_conv)
  next
    case (halted chunk)
    with "1.prems"(2) show ?thesis by simp
  next
    case (more chunk rest' ms' r)
    from more(6) "1.prems"(2)
    have ms: "ms = File_chunk did (n + 1) tot (latin1_decode chunk) # ms'" and r: "r = Inr k"
      by simp_all
    have split: "rest = chunk @ rest'"
      using more(1) by (rule f_read_split)
    obtain t tms' where tms: "tms = (t, File_chunk did (n + 1) tot (latin1_decode chunk)) # tms'"
      and tms': "map snd tms' = ms'"
      using "1.prems"(5) ms by (cases tms) auto
    define path where "path = file_path info"
    define info1 where "info1 = info\<lparr>chunks_received := n + 1\<rparr>"
    define srv1 where "srv1 = srv\<lparr>files := (files srv)
                    (path \<mapsto> file_contents (files srv) path @ chunk),
                 downloads := (downloads srv)(did \<mapsto> info1)\<rparr>"
    have step: "on_message ws t (File_chunk did (n + 1) tot (latin1_decode chunk)) (cid, srv)
                  = (None, cid, srv1)"
      using handle_file_chunk_known [OF "1.prems"(3,4), of chunk "n + 1"]
      by (simp add: srv1_def info1_def path_def)
    have d1: "downloads srv1 did = Some info1"
      by (simp add: srv1_def)
    have o1: "open_fails srv1 (file_path info1) = None"
      using "1.prems"(4) by (simp add: srv1_def info1_def)
    have rec: "send_loop cs mem (after_send tun) fsz did tot (n + 1) rest' = (ms', Inr k)"
      using more(5) r by simp
    from "1.IH" [OF more(1) refl more(2,3,4) "1.prems"(1) rec d1 o1 tms']
    obtain srv' cr where
      a: "ws_loop ws (tms' @ tl_msgs) (cid, srv1) = ws_loop ws tl_msgs (cid, srv')" and
      b: "file_contents (files srv') (file_path info1) =
             file_contents (files srv1) (file_path info1) @ rest'" and
      c: "downloads srv' did = Some (info1\<lparr>chunks_received := cr\<rparr>)"
      by blast
    have "ws_loop ws (tms @ tl_msgs) (cid, srv) = ws_loop ws tl_msgs (cid, srv')"
      using a step by (simp add: tms)
    moreover have "file_contents (files srv') (file_path info) =
             file_contents (files srv) (file_path info) @ rest"
      using b by (simp add: info1_def srv1_def path_def split file_contents_def)
    moreover have "downloads srv' did = Some (info\<lparr>chunks_received := cr\<rparr>)"
      using c by (simp add: info1_def)
    ultimately show ?thesis by blast
  qed
qed

lemma handler_after_send_file:
  assumes "send_file cs mem tun fs did fp = (msgs, None)"
    and "downloads srv did = Some info"
    and "open_fails srv (file_path info) = None"
    and "map snd tms = msgs"
  shows "\<exists>srv' cr now nd content.
           fs (path_of fp) = Some nd \<and> opened nd = Inr content \<and>
           concat (map chunk_payload msgs) = latin1_decode content \<and>
           websocket_handler ws tms srv =
             (None, handle_file_complete srv' now did (st_size nd)) \<and>
           file_contents (files srv') (file_path info) =
             file_contents (files srv) (file_path info) @ content \<and>
           downloads srv' did = Some (info\<lparr>chunks_received := cr\<rparr>)"
proof -
  from assms(1) obtain nd content ms k where
    nd: "fs (path_of fp) = Some nd" and nz: "cs \<noteq> 0" and op: "opened nd = Inr content"
    and sl: "send_loop cs mem tun (st_size nd) did (total_chunks_of (st_size nd) cs) 0 content
               = (ms, Inr k)"
    and msgs: "msgs = ms @ [File_complete did (st_size nd) k]"
    by (rule send_file_finished)
  have pl: "concat (map chunk_payload msgs) = latin1_decode content"
    using send_loop_finished [OF nz sl] by (simp add: msgs)
  from assms(4) msgs obtain tms1 now where
    tms: "tms = tms1 @ [(now, File_complete did (st_size nd) k)]"
    and tms1: "map snd tms1 = ms"
    by (cases tms rule: rev_cases) auto
  from ws_loop_chunks [where ws = ws and cid = None
          and tl_msgs = "[(now, File_complete did (st_size nd) k)]",
          OF nz sl assms(2,3) tms1]
  obtain srv' cr where
    a: "ws_loop ws tms (None, srv) =
          ws_loop ws [(now, File_complete did (st_size nd) k)] (None, srv')"
    and b: "file_contents (files srv') (file_path info) =
             file_contents (files srv) (file_path info) @ content"
    and c: "downloads srv' did = Some (info\<lparr>chunks_received := cr\<rparr>)"
    unfolding tms by auto
  have "websocket_handler ws tms srv =
          (None, handle_file_complete srv' now did (st_size nd))"
    by (simp add: websocket_handler_def a on_disconnect_def)
  with nd op pl b c show ?thesis by blast
qed

section \<open>Lemmas on the handler tasks\<close>

lemma on_message_cid:
  "on_message ws now m (cid, srv) = (e, cid', srv') \<Longrightarrow>
   cid' = (case m of Register c \<Rightarrow> Some c | _ \<Rightarrow> cid)"
  by (cases m) (auto split: prod.splits)

lemma last_registered_step:
  "last_registered ws (ev # evs) acc =
     last_registered ws evs
       (case ev of
          Receive w now m \<Rightarrow>
            (case m of Register c \<Rightarrow> if w = ws then Some c else acc | _ \<Rightarrow> acc)
        | _ \<Rightarrow> acc)"
  by (cases ev) (auto split: client_msg.splits)

text \<open>The handler of a tunnel that is open after a step.\<close>

lemma step_handler:
  assumes "ev \<noteq> Connect ws" and "fst w ws = Some acc" and "fst (step ev w) ws = Some cid"
  shows "cid = (case ev of
                  Receive w' now m \<Rightarrow>
                    (case m of Register c \<Rightarrow> if w' = ws then Some c else acc | _ \<Rightarrow> acc)
                | _ \<Rightarrow> acc)"
proof -
  obtain hs srv where w: "w = (hs, srv)" by (cases w)
  show ?thesis
  proof (cases ev)
    case (Connect w')
    with assms w show ?thesis by (auto split: if_splits)
  next
    case (Disconnect w')
    with assms w show ?thesis by (auto split: option.splits if_splits)
  next
    case (Receive w' now m)
    show ?thesis
    proof (cases "w' = ws")
      case False
      with assms w Receive show ?thesis
        by (auto split: option.splits prod.splits if_splits client_msg.splits)
    next
      case True
      obtain e cid' srv' where om: "on_message ws now m (acc, srv) = (e, cid', srv')"
        by (cases "on_message ws now m (acc, srv)")
      have "e = None"
        using assms(2,3) w Receive True om by (cases e) auto
      then have "cid = cid'"
        using assms(2,3) w Receive True om by simp
      with on_message_cid [OF om] Receive True show ?thesis by simp
    qed
  qed
qed

lemma step_closed:
  assumes "ev \<noteq> Connect ws" and "fst w ws = None"
  shows "fst (step ev w) ws = None"
proof -
  obtain hs srv where w: "w = (hs, srv)" by (cases w)
  with assms show ?thesis
    by (cases ev) (auto split: option.splits prod.splits)
qed

lemma run_closed:
  "Connect ws \<notin> set evs \<Longrightarrow> fst w ws = None \<Longrightarrow> fst (run evs w) ws = None"
proof (induction evs arbitrary: w)
  case Nil
  then show ?case by simp
next
  case (Cons ev evs)
  from Cons.prems have "ev \<noteq> Connect ws" by auto
  from step_closed [OF this Cons.prems(2)] Cons.IH [of "step ev w"] Cons.prems(1)
  show ?case by simp
qed

text \<open>
  While a tunnel stays open, the \<open>client_id\<close> of its handler is the identity it registered
  last, whatever the other tunnels do in between.
\<close>

lemma run_handler:
  "Connect ws \<notin> set evs \<Longrightarrow> fst w ws = Some acc \<Longrightarrow> fst (run evs w) ws = Some cid \<Longrightarrow>
   cid = last_registered ws evs acc"
proof (induction evs arbitrary: w acc)
  case Nil
  then show ?case by simp
next
  case (Cons ev evs)
  from Cons.prems(1) have ne: "ev \<noteq> Connect ws" and rest: "Connect ws \<notin> set evs"
    by auto
  show ?case
  proof (cases "fst (step ev w) ws")
    case None
    from run_closed [OF rest None] Cons.prems(3) show ?thesis by simp
  next
    case (Some acc')
    from step_handler [OF ne Cons.prems(2) Some]
    have acc': "acc' = (case ev of
                  Receive w' now m \<Rightarrow>
                    (case m of Register c \<Rightarrow> if w' = ws then Some c else acc | _ \<Rightarrow> acc)
                | _ \<Rightarrow> acc)" .
    from Cons.IH [OF rest Some] Cons.prems(3)
    have "cid = last_registered ws evs acc'" by simp
    then show ?thesis
      by (simp only: last_registered_step [of ws ev evs acc] acc')
  qed
qed

text \<open>One handler alone, from acceptance to close, is \<open>websocket_handler\<close>.\<close>

lemma run_ignored:
  "hs ws = None \<Longrightarrow>
   run (map (\<lambda>(now, m). Receive ws now m) tms @ [Disconnect ws]) (hs, srv) = (hs, srv)"
  by (induction tms) (auto split: prod.splits)

lemma run_one_tunnel:
  "hs ws = Some cid \<Longrightarrow>
   snd (run (map (\<lambda>(now, m). Receive ws now m) tms @ [Disconnect ws]) (hs, srv)) =
     (case ws_loop ws tms (cid, srv) of (e, cid', srv') \<Rightarrow> on_disconnect cid' srv')"
proof (induction tms arbitrary: hs cid srv)
  case Nil
  then show ?case by simp
next
  case (Cons tm tms)
  obtain now m where tm: "tm = (now, m)" by (cases tm)
  obtain e cid' srv' where om: "on_message ws now m (cid, srv) = (e, cid', srv')"
    by (cases "on_message ws now m (cid, srv)")
  have unroll: "run (map (\<lambda>(now, m). Receive ws now m) (tm # tms) @ [Disconnect ws]) (hs, srv) =
          run (map (\<lambda>(now, m). Receive ws now m) tms @ [Disconnect ws])
            (step (Receive ws now m) (hs, srv))"
    by (simp add: tm del: step.simps)
  show ?case
  proof (cases e)
    case None
    have st: "step (Receive ws now m) (hs, srv) = (hs(ws \<mapsto> cid'), srv')"
      using Cons.prems om None by simp
    have lp: "ws_loop ws (tm # tms) (cid, srv) = ws_loop ws tms (cid', srv')"
      by (simp add: tm om None)
    have "(hs(ws \<mapsto> cid')) ws = Some cid'" by simp
    from Cons.IH [where hs = "hs(ws \<mapsto> cid')" and cid = cid' and srv = srv', OF this]
    show ?thesis
      by (simp only: unroll st lp)
  next
    case (Some x)
    have st: "step (Receive ws now m) (hs, srv) = (hs(ws := None), on_disconnect cid' srv')"
      using Cons.prems om Some by simp
    have lp: "ws_loop ws (tm # tms) (cid, srv) = (Some x, cid', srv')"
      by (simp add: tm om Some)
    have "(hs(ws := None)) ws = None" by simp
    from run_ignored [where hs = "hs(ws := None)" and ws = ws and tms = tms
           and srv = "on_disconnect cid' srv'", OF this]
    show ?thesis
      by (simp only: unroll st lp) simp
  qed
qed

lemma websocket_handler_run:
  "snd (run (Connect ws # map (\<lambda>(now, m). Receive ws now m) tms @ [Disconnect ws]) (hs, srv)) =
     snd (websocket_handler ws tms srv)"
proof -
  have "(hs(ws \<mapsto> None)) ws = Some None" by simp
  from run_one_tunnel [where hs = "hs(ws \<mapsto> None)" and ws = ws and cid = None
         and tms = tms and srv = srv, OF this]
  show ?thesis
    by (simp add: websocket_handler_def split: prod.splits)
qed

subsection \<open>The scenario, evaluated\<close>

lemma strftime_noon: "strftime noon = ''20261104_120000''"
  by (simp add: strftime_def noon_def zpad_def show_nat.simps)

lemma isoformat_noon: "isoformat noon = ''2026-11-04T12:00:00''"
  by (simp add: isoformat_def noon_def zpad_def show_nat.simps)

lemma d1_path_eq: "path_div ''./downloads'' (local_filename ''site-7'' noon) = d1_path"
  by (simp add: local_filename_def strftime_noon path_div_def path_root_def path_parts_def
        path_str_def d1_path_def)

lemma dispatched_server_eq:
  "dispatched_server =
     \<lparr>download_dir = ''./downloads'', connected_clients = [''site-7'' \<mapsto> 1],
      downloads = [''d1'' \<mapsto>
         \<lparr>download_id = ''d1'', client_id = ''site-7'', file_path = d1_path,
          remote_path = ''$HOME/file_to_download.txt'', status = Downloading,
          started_at = ''2026-11-04T12:00:00'', chunks_received = 0,
          completed_at = None, total_size = None, error = None\<rparr>],
      files = Map.empty, open_fails = in_dirs [''downloads''],
      sent = [(1, Registered ''Successfully registered''),
              (1, Download_request ''d1'' ''$HOME/file_to_download.txt'')]\<rparr>"
  by (simp add: dispatched_server_def trigger_download_def site7_server_def env_d1_def
        fresh_server_def d1_path_eq isoformat_noon Let_def)

lemma d1_opens: "in_dirs [''downloads''] d1_path = None"
  by (simp add: in_dirs_def dirname_def d1_path_def Let_def)

lemma client_path: "path_of ''/home/u/file_to_download.txt'' = ''/home/u/file_to_download.txt''"
  by (simp add: path_of_def path_root_def path_parts_def path_str_def)

lemma d1_sent:
  "send_file 2 1048576 None client_files ''d1'' ''/home/u/file_to_download.txt'' =
     (map snd d1_messages, None)"
  by (simp add: d1_messages_def send_file_def client_path client_files_def total_chunks_of_def
        send_loop.simps f_read_def max_read_size_def latin1_decode_def tunnel_closed_def
        after_send_def)

lemma d1_downloaded:
  "websocket_handler 1 d1_messages dispatched_server =
     (None, dispatched_server
        \<lparr>files := [d1_path \<mapsto> [0, 255, 128]],
         downloads := [''d1'' \<mapsto>
         \<lparr>download_id = ''d1'', client_id = ''site-7'', file_path = d1_path,
          remote_path = ''$HOME/file_to_download.txt'', status = Completed,
          started_at = ''2026-11-04T12:00:00'', chunks_received = 2,
          completed_at = Some ''2026-11-04T12:00:00'', total_size = Some 3, error = None\<rparr>]\<rparr>)"
  by (simp add: dispatched_server_eq websocket_handler_def d1_messages_def
        handle_file_chunk_def handle_file_complete_def latin1_encode_def file_contents_def
        on_disconnect_def isoformat_noon d1_opens)

lemma failed_eq:
  "handle_client_error dispatched_server ''d1'' m =
     dispatched_server
        \<lparr>downloads := [''d1'' \<mapsto>
         \<lparr>download_id = ''d1'', client_id = ''site-7'', file_path = d1_path,
          remote_path = ''$HOME/file_to_download.txt'', status = Failed,
          started_at = ''2026-11-04T12:00:00'', chunks_received = 0,
          completed_at = None, total_size = None, error = Some m\<rparr>]\<rparr>"
  by (simp add: dispatched_server_eq handle_client_error_def)

text \<open>
  The file of \<open>/sys\<close>: the \<open>total_size\<close> sent is the 4096 of \<open>stat()\<close>, the one chunk has
  the four bytes read.
\<close>

lemma sys_path:
  "path_of ''/sys/devices/system/cpu/online'' = ''/sys/devices/system/cpu/online''"
  by (simp add: path_of_def path_root_def path_parts_def path_str_def)

lemma sys_file_sent:
  "send_file 1048576 1048576 None client_files ''d1'' ''/sys/devices/system/cpu/online'' =
     ([File_chunk ''d1'' 1 1 [48, 45, 51, 10], File_complete ''d1'' 4096 1], None)"
  by (simp add: send_file_def sys_path client_files_def total_chunks_of_def
        send_loop.simps f_read_def max_read_size_def latin1_decode_def tunnel_closed_def
        after_send_def)

text \<open>A directory exists, and opening it raises.\<close>

lemma directory_sent:
  "send_file 2 1048576 None client_files ''d1'' ''/home/u/'' = ([], Some IsADirectoryError)"
  by (simp add: send_file_def client_files_def path_of_def path_root_def path_parts_def
        path_str_def)

text \<open>A tunnel that closes after one message: the second chunk is not sent.\<close>

lemma closed_tunnel_sent:
  "send_file 2 1048576 (Some 1) client_files ''d1'' ''/home/u/file_to_download.txt'' =
     ([File_chunk ''d1'' 1 2 [0, 255]], Some ConnectionResetError)"
  by (simp add: send_file_def client_path client_files_def total_chunks_of_def
        send_loop.simps f_read_def max_read_size_def latin1_decode_def tunnel_closed_def
        after_send_def)

text \<open>
  The client \<open>a/b\<close>: the dispatch succeeds, and the first chunk raises at \<open>open\<close>, with
  nothing written and nothing counted.
\<close>

lemma slash_path:
  "path_div ''./downloads'' (local_filename ''a/b'' noon) =
     ''downloads/a/b_20261104_120000_file_to_download.txt''"
  by (simp add: local_filename_def strftime_noon path_div_def path_root_def path_parts_def
        path_str_def)

lemma slash_dispatched:
  "map_option file_path (downloads slash_server ''d3'') =
     Some ''downloads/a/b_20261104_120000_file_to_download.txt'' \<and>
   open_fails slash_server = in_dirs [''downloads'']"
  by (simp add: slash_server_def trigger_download_def env_d1_def fresh_server_def slash_path
        Let_def)

lemma slash_chunk_raises:
  "handle_file_chunk slash_server ''d3'' [65] 1 =
     (Some (FileNotFoundError
        (''[Errno 2] No such file or directory: '' @ [CHR 0x27] @
         ''downloads/a/b_20261104_120000_file_to_download.txt'' @ [CHR 0x27])),
      slash_server)"
proof -
  have "in_dirs [''downloads''] ''downloads/a/b_20261104_120000_file_to_download.txt'' =
     Some (FileNotFoundError
        (''[Errno 2] No such file or directory: '' @ [CHR 0x27] @
         ''downloads/a/b_20261104_120000_file_to_download.txt'' @ [CHR 0x27]))"
    by (simp add: in_dirs_def dirname_def Let_def)
  with slash_dispatched show ?thesis
    by (auto simp: handle_file_chunk_def Let_def)
qed

lemma reregistered_eq:
  "fst reregistered 1 = Some (Some ''site-7'') \<and>
   connected_clients (snd reregistered) = [''site-7'' \<mapsto> 2]"
  by (simp add: reregistered_def reregistration_def fresh_server_def)

lemma strftime_microsecond: "strftime (t\<lparr>microsecond := us\<rparr>) = strftime t"
  by (simp add: strftime_def)

lemma on_message_raises:
  "on_message ws now m (cid, srv) = (Some e, cid', srv') \<Longrightarrow>
   cid' = cid \<and> connected_clients srv' = connected_clients srv"
  by (cases m)
     (auto simp: handle_file_chunk_def Let_def split: option.splits sum.splits prod.splits)

lemma on_disconnect_registry:
  "connected_clients (on_disconnect cid srv) =
     (case cid of None \<Rightarrow> connected_clients srv
      | Some c \<Rightarrow> if c = [] then connected_clients srv
                  else (connected_clients srv)(c := None))"
  by (auto simp: on_disconnect_def fun_upd_idem split: option.splits)

section \<open>The claims\<close>

text \<open>
  Claim C1. Encoding a chunk on the client (\<open>decode('latin1')\<close>) and decoding it on the
  server (\<open>encode('latin1')\<close>) gives back the bytes, for every byte sequence. Hence, for
  a file the client can open, a chunk size from 1 up to what one read can allocate, a size
  from \<open>stat()\<close> that is not 0 unless the file is empty, and a tunnel that stays open,
  \<open>send_file\<close> raises nothing and the payloads of its chunk messages concatenated in
  send order are the file (as latin1 text); and a server that knows the download, can open
  its destination for appending, and receives these messages in order on one tunnel raises
  nothing and has appended exactly the file's bytes to the destination.
\<close>

theorem chunk_roundtrip:
  assumes "1 \<le> chunk_size" and "chunk_size \<le> max_read_size" and "chunk_size \<le> mem"
    and "fs (path_of fp) = Some nd" and "opened nd = Inr content"
    and "content = [] \<or> st_size nd \<noteq> 0"
    and "downloads srv did = Some info" and "open_fails srv (file_path info) = None"
    and "map snd tms = fst (send_file chunk_size mem None fs did fp)"
  shows "latin1_encode (latin1_decode bs) = Inr bs \<and>
         snd (send_file chunk_size mem None fs did fp) = None \<and>
         concat (map chunk_payload (fst (send_file chunk_size mem None fs did fp))) =
           latin1_decode content \<and>
         fst (websocket_handler ws tms srv) = None \<and>
         file_contents (files (snd (websocket_handler ws tms srv))) (file_path info) =
           file_contents (files srv) (file_path info) @ content"
proof -
  obtain msgs where sf: "send_file chunk_size mem None fs did fp = (msgs, None)"
    using send_file_succeeds [where fs = fs and fp = fp, OF assms(1,2,3,4,5,6)] by blast
  have m: "map snd tms = msgs"
    using assms(9) sf by simp
  from handler_after_send_file [where fs = fs and fp = fp, OF sf assms(7,8) m]
  obtain srv' cr now nd' content' where
    nd': "fs (path_of fp) = Some nd'" "opened nd' = Inr content'"
    and pl: "concat (map chunk_payload msgs) = latin1_decode content'"
    and h: "websocket_handler ws tms srv =
             (None, handle_file_complete srv' now did (st_size nd'))"
    and f: "file_contents (files srv') (file_path info) =
             file_contents (files srv) (file_path info) @ content'"
    by blast
  have "content' = content"
    using nd' assms(4,5) by simp
  with sf pl h f show ?thesis
    by (simp add: latin1_roundtrip)
qed

theorem chunk_roundtrip_witness:
  "file_contents (files (snd (websocket_handler 1 d1_messages dispatched_server))) d1_path
     = [0, 255, 128]"
proof -
  have 1: "(1::int) \<le> 2" and 2: "(2::int) \<le> max_read_size" and 3: "(2::int) \<le> 1048576"
    by (simp_all add: max_read_size_def)
  have 4: "client_files (path_of ''/home/u/file_to_download.txt'') =
             Some \<lparr>st_size = 3, opened = Inr [0, 255, 128]\<rparr>"
    by (simp add: client_path client_files_def)
  have 5: "opened \<lparr>st_size = 3, opened = Inr [0, 255, 128]\<rparr> = Inr [0, 255, 128 :: byte]"
    by simp
  have 6: "[0, 255, 128 :: byte] = [] \<or>
           st_size \<lparr>st_size = 3, opened = Inr [0, 255, 128 :: byte]\<rparr> \<noteq> 0"
    by simp
  have 7: "downloads dispatched_server ''d1'' =
      Some \<lparr>download_id = ''d1'', client_id = ''site-7'', file_path = d1_path,
            remote_path = ''$HOME/file_to_download.txt'', status = Downloading,
            started_at = ''2026-11-04T12:00:00'', chunks_received = 0,
            completed_at = None, total_size = None, error = None\<rparr>"
    by (simp add: dispatched_server_eq)
  have 8: "open_fails dispatched_server
             (file_path \<lparr>download_id = ''d1'', client_id = ''site-7'', file_path = d1_path,
            remote_path = ''$HOME/file_to_download.txt'', status = Downloading,
            started_at = ''2026-11-04T12:00:00'', chunks_received = 0,
            completed_at = None, total_size = None, error = None\<rparr>) = None"
    by (simp add: dispatched_server_eq d1_opens)
  have 9: "map snd d1_messages =
             fst (send_file 2 1048576 None client_files ''d1'' ''/home/u/file_to_download.txt'')"
    by (simp add: d1_sent)
  have 10: "file_contents (files dispatched_server) d1_path = []"
    by (simp add: dispatched_server_eq file_contents_def)
  show ?thesis
    using chunk_roundtrip [where fs = client_files and fp = "''/home/u/file_to_download.txt''"
        and srv = dispatched_server and ws = 1 and bs = "[]", OF 1 2 3 4 5 6 7 8 9] 10
    by simp
qed

text \<open>
  Claim C2 says that a record that is failed stays failed when a \<open>file_complete\<close>
  arrives for it, and that no message leaves a terminal state. The handlers never read the
  status: in the scenario, the download \<open>d1\<close> fails and a later \<open>file_complete\<close>
  makes it completed.
\<close>

theorem failed_then_complete_counterexample:
  "status_of (handle_client_error dispatched_server ''d1'' ''File not found'') ''d1'' =
     Some Failed \<and>
   status_of
     (handle_file_complete
        (handle_client_error dispatched_server ''d1'' ''File not found'') noon ''d1'' 3)
     ''d1'' \<noteq> Some Failed"
  by (simp add: status_of_def failed_eq handle_file_complete_def)

text \<open>
  Claim C2 as amended. A \<open>file_complete\<close> sets the status of the download it names to
  completed and an \<open>error\<close> sets it to failed, whatever the status was, and they leave
  the status of every other download alone; a \<open>file_chunk\<close> changes no status.
\<close>

theorem status_transitions:
  "status_of (handle_file_complete srv now did n) d =
     (if d = did then map_option (\<lambda>s. Completed) (status_of srv d) else status_of srv d) \<and>
   status_of (handle_client_error srv did m) d =
     (if d = did then map_option (\<lambda>s. Failed) (status_of srv d) else status_of srv d) \<and>
   status_of (snd (handle_file_chunk srv did chunk_data chunk_num)) d = status_of srv d"
  by (auto simp: status_of_def handle_file_complete_def handle_client_error_def
        handle_file_chunk_def Let_def split: option.splits sum.splits)

text \<open>
  Claim C3 says that a chunk for a record that is no longer downloading is a no-op. In the
  scenario the download \<open>d1\<close> has completed with the three bytes of the file; a further
  chunk is appended to the destination and moves \<open>chunks_received\<close> from 2 to 3.
\<close>

theorem chunk_after_complete_counterexample:
  "status_of (snd (websocket_handler 1 d1_messages dispatched_server)) ''d1'' = Some Completed \<and>
   files (snd (websocket_handler 1 d1_messages dispatched_server)) d1_path =
     Some [0, 255, 128] \<and>
   files (snd (handle_file_chunk (snd (websocket_handler 1 d1_messages dispatched_server))
                 ''d1'' [65] 3)) d1_path = Some [0, 255, 128, 65] \<and>
   map_option chunks_received
     (downloads (snd (websocket_handler 1 d1_messages dispatched_server)) ''d1'') = Some 2 \<and>
   map_option chunks_received
     (downloads (snd (handle_file_chunk (snd (websocket_handler 1 d1_messages dispatched_server))
                 ''d1'' [65] 3)) ''d1'') = Some 3"
  unfolding d1_downloaded
  by (simp add: status_of_def handle_file_chunk_def latin1_encode_def file_contents_def
        dispatched_server_eq d1_opens)

text \<open>
  Claim C3 as amended. For every chunk whose \<open>download_id\<close> is known, whatever the
  status of the record, whose destination file can be opened for appending and whose
  payload has only code points below 256, the bytes of the payload are appended to the
  destination file and \<open>chunks_received\<close> becomes the chunk's number; nothing else
  changes, the status included.
\<close>

theorem chunk_appended_in_any_state:
  assumes "downloads srv did = Some info" and "open_fails srv (file_path info) = None"
    and "latin1_encode chunk_data = Inr bs"
  shows "handle_file_chunk srv did chunk_data chunk_num =
     (None, srv\<lparr>files := (files srv)
                    (file_path info \<mapsto> file_contents (files srv) (file_path info) @ bs),
                 downloads := (downloads srv)
                    (did \<mapsto> info\<lparr>chunks_received := chunk_num\<rparr>)\<rparr>)"
  using assms by (simp add: handle_file_chunk_def Let_def)

theorem chunk_appended_in_any_state_witness:
  "handle_file_chunk (handle_client_error dispatched_server ''d1'' ''boom'') ''d1'' [65] 3 =
     (None, (handle_client_error dispatched_server ''d1'' ''boom'')
        \<lparr>files := (files (handle_client_error dispatched_server ''d1'' ''boom''))
                    (d1_path \<mapsto> [65]),
         downloads := (downloads (handle_client_error dispatched_server ''d1'' ''boom''))
            (''d1'' \<mapsto>
               \<lparr>download_id = ''d1'', client_id = ''site-7'', file_path = d1_path,
            remote_path = ''$HOME/file_to_download.txt'', status = Failed,
            started_at = ''2026-11-04T12:00:00'', chunks_received = 3,
            completed_at = None, total_size = None, error = Some ''boom''\<rparr>)\<rparr>)"
proof -
  have 1: "downloads (handle_client_error dispatched_server ''d1'' ''boom'') ''d1'' =
      Some \<lparr>download_id = ''d1'', client_id = ''site-7'', file_path = d1_path,
            remote_path = ''$HOME/file_to_download.txt'', status = Failed,
            started_at = ''2026-11-04T12:00:00'', chunks_received = 0,
            completed_at = None, total_size = None, error = Some ''boom''\<rparr>"
    by (simp add: failed_eq)
  have 2: "open_fails (handle_client_error dispatched_server ''d1'' ''boom'')
             (file_path \<lparr>download_id = ''d1'', client_id = ''site-7'', file_path = d1_path,
            remote_path = ''$HOME/file_to_download.txt'', status = Failed,
            started_at = ''2026-11-04T12:00:00'', chunks_received = 0,
            completed_at = None, total_size = None, error = Some ''boom''\<rparr>) = None"
    unfolding failed_eq by (simp add: dispatched_server_eq d1_opens)
  have 3: "latin1_encode [65] = Inr [65]"
    by (simp add: latin1_encode_def)
  have 4: "file_contents (files (handle_client_error dispatched_server ''d1'' ''boom'')) d1_path = []"
    unfolding failed_eq by (simp add: dispatched_server_eq file_contents_def)
  from chunk_appended_in_any_state [OF 1 2 3, of 3] 4
  show ?thesis by simp
qed

text \<open>
  Claim C4 says that the cleanup of a tunnel removes the registry entry only when it maps
  to that very tunnel. Tunnel 1 registers as \<open>site-7\<close>, then tunnel 2 does, so that the
  entry maps to tunnel 2; the cleanup of tunnel 1 removes it.
\<close>

theorem orphan_disconnect_counterexample:
  "fst reregistered 1 = Some (Some ''site-7'') \<and>
   connected_clients (snd reregistered) ''site-7'' = Some 2 \<and>
   connected_clients (snd (step (Disconnect 1) reregistered)) ''site-7'' = None"
proof -
  obtain hs srv where w: "reregistered = (hs, srv)" by (cases reregistered)
  have "hs 1 = Some (Some ''site-7'')"
    and "connected_clients srv = [''site-7'' \<mapsto> 2]"
    using reregistered_eq unfolding w by simp_all
  then show ?thesis
    unfolding w by (simp add: on_disconnect_def)
qed

text \<open>
  Claim C4 as amended. A tunnel is accepted and stays open while messages arrive on it and
  on other tunnels. When its handler then ends, at the close of the tunnel or at an
  exception on one of its messages, its \<open>client_id\<close> is the identity the tunnel
  registered last, and the cleanup removes the registry entry of that identity if it is not
  empty, whichever tunnel the entry maps to, and no other entry; a tunnel that registered
  nothing, or the empty identity last, removes nothing. A handler that runs from
  acceptance to close with no other task in between is \<open>websocket_handler\<close>.
\<close>

theorem disconnect_removes_last_identity:
  assumes "Connect ws \<notin> set evs"
    and "run evs (hs(ws \<mapsto> None), srv) = (hs', srv')"
    and "hs' ws \<noteq> None"
    and "ev = Disconnect ws \<or> ev = Receive ws now m"
    and "fst (step ev (hs', srv')) ws = None"
  shows "hs' ws = Some (last_registered ws evs None) \<and>
         connected_clients (snd (step ev (hs', srv'))) =
           (case last_registered ws evs None of
              None \<Rightarrow> connected_clients srv'
            | Some c \<Rightarrow> if c = [] then connected_clients srv'
                        else (connected_clients srv')(c := None)) \<and>
         snd (run (Connect ws # map (\<lambda>(now, m). Receive ws now m) tms @ [Disconnect ws])
                (hs, srv)) =
           snd (websocket_handler ws tms srv)"
proof -
  obtain cid where cid: "hs' ws = Some cid"
    using assms(3) by auto
  have start: "fst (hs(ws \<mapsto> None), srv) ws = Some None" by simp
  have "fst (run evs (hs(ws \<mapsto> None), srv)) ws = Some cid"
    using assms(2) cid by simp
  from run_handler [OF assms(1) start this]
  have lr: "cid = last_registered ws evs None" .
  have "connected_clients (snd (step ev (hs', srv'))) =
          connected_clients (on_disconnect cid srv')"
  proof (cases "ev = Disconnect ws")
    case True
    with cid show ?thesis by simp
  next
    case False
    with assms(4) have ev: "ev = Receive ws now m" by simp
    obtain e cid' srv2 where om: "on_message ws now m (cid, srv') = (e, cid', srv2)"
      by (cases "on_message ws now m (cid, srv')")
    have "e \<noteq> None"
      using assms(5) ev cid om by (cases e) auto
    then obtain x where e: "e = Some x" by auto
    from on_message_raises [OF om [unfolded e]]
    have "cid' = cid" and "connected_clients srv2 = connected_clients srv'" by simp_all
    then show ?thesis
      using ev cid om e by (simp add: on_disconnect_registry split: option.splits)
  qed
  with lr have registry: "connected_clients (snd (step ev (hs', srv'))) =
           (case last_registered ws evs None of
              None \<Rightarrow> connected_clients srv'
            | Some c \<Rightarrow> if c = [] then connected_clients srv'
                        else (connected_clients srv')(c := None))"
    by (simp add: on_disconnect_registry)
  have identity: "hs' ws = Some (last_registered ws evs None)"
    using lr cid by simp
  have alone: "snd (run (Connect ws # map (\<lambda>(now, m). Receive ws now m) tms @ [Disconnect ws])
                (hs, srv)) =
           snd (websocket_handler ws tms srv)"
    by (rule websocket_handler_run)
  from identity registry alone show ?thesis
    by (intro conjI)
qed

theorem disconnect_removes_last_identity_witness:
  "connected_clients (snd (step (Disconnect 1) reregistered)) = Map.empty"
proof -
  obtain hs' srv' where w: "reregistered = (hs', srv')" by (cases reregistered)
  have 1: "Connect 1 \<notin> set reregistration"
    by (simp add: reregistration_def)
  have 2: "run reregistration (Map.empty(1 \<mapsto> None), fresh_server) = (hs', srv')"
    using w by (simp add: reregistered_def)
  have hs': "hs' 1 = Some (Some ''site-7'')" and reg: "connected_clients srv' = [''site-7'' \<mapsto> 2]"
    using reregistered_eq unfolding w by simp_all
  have 3: "hs' 1 \<noteq> None" using hs' by simp
  have 4: "Disconnect 1 = Disconnect 1 \<or> Disconnect 1 = Receive 1 noon Pong" by simp
  have 5: "fst (step (Disconnect 1) (hs', srv')) 1 = None"
    using hs' by simp
  have 6: "last_registered 1 reregistration None = Some ''site-7''"
    by (simp add: reregistration_def)
  from disconnect_removes_last_identity [OF 1 2 3 4 5]
  have "connected_clients (snd (step (Disconnect 1) (hs', srv'))) =
          (connected_clients srv')(''site-7'' := None)"
    unfolding 6 by (simp del: step.simps)
  then show ?thesis
    unfolding w by (simp add: reg del: step.simps)
qed

text \<open>
  Claim C5 says that \<open>chunks_received\<close> becomes the maximum of its value and the
  incoming \<open>chunk_num\<close>. After chunk 5, chunk 3 sets it to 3.
\<close>

theorem chunk_out_of_order_counterexample:
  "map_option chunks_received
     (downloads (snd (handle_file_chunk dispatched_server ''d1'' [65] 5)) ''d1'') = Some 5 \<and>
   map_option chunks_received
     (downloads (snd (handle_file_chunk
                        (snd (handle_file_chunk dispatched_server ''d1'' [65] 5))
                        ''d1'' [66] 3)) ''d1'') = Some 3 \<and>
   (3::int) \<noteq> max 5 3"
  by (simp add: dispatched_server_eq handle_file_chunk_def latin1_encode_def d1_opens)

text \<open>
  Claim C5 as amended. A chunk for a known download sets \<open>chunks_received\<close> to its
  \<open>chunk_num\<close>, the last number seen, when the destination file can be opened for
  appending and the payload can be encoded as latin1, and leaves the field unchanged
  otherwise; so it does not decrease at a chunk whose number is at least its value. The
  client numbers the chunks it sends 1, 2, 3, ... in send order.
\<close>

theorem chunks_received_last:
  assumes "downloads srv did = Some info"
  shows "map_option chunks_received
           (downloads (snd (handle_file_chunk srv did chunk_data chunk_num)) did) =
         Some (if open_fails srv (file_path info) = None \<and>
                  list_all (\<lambda>c. c < 256) chunk_data
               then chunk_num else chunks_received info) \<and>
         (chunks_received info \<le> chunk_num \<longrightarrow>
          map_option (\<lambda>i. chunks_received info \<le> chunks_received i)
            (downloads (snd (handle_file_chunk srv did chunk_data chunk_num)) did) =
          Some True) \<and>
         chunk_nums (fst (send_file cs mem tun fs d fp)) =
           map (\<lambda>i. 1 + int i) [0..<length (chunk_nums (fst (send_file cs mem tun fs d fp)))]"
proof -
  have a: "map_option chunks_received
           (downloads (snd (handle_file_chunk srv did chunk_data chunk_num)) did) =
         Some (if open_fails srv (file_path info) = None \<and>
                  list_all (\<lambda>c. c < 256) chunk_data
               then chunk_num else chunks_received info)"
    using assms
    by (auto simp: handle_file_chunk_def latin1_encode_def Let_def split: option.splits)
  have m: "map_option (\<lambda>i. chunks_received info \<le> chunks_received i)
            (downloads (snd (handle_file_chunk srv did chunk_data chunk_num)) did) =
          Some True"
    if "chunks_received info \<le> chunk_num"
    using assms that
    by (auto simp: handle_file_chunk_def latin1_encode_def Let_def split: option.splits)
  have b: "chunk_nums (fst (send_file cs mem tun fs d fp)) =
           map (\<lambda>i. 1 + int i) [0..<length (chunk_nums (fst (send_file cs mem tun fs d fp)))]"
  proof (cases rule: send_file_cases [of cs mem tun fs d fp])
    case (absent e)
    then show ?thesis by simp
  next
    case (looped nd content ms r)
    have "chunk_nums (fst (send_file cs mem tun fs d fp)) = chunk_nums ms"
      using looped(5) by (cases r) (simp_all add: chunk_nums_append)
    moreover have "chunk_nums ms = map (\<lambda>i. 1 + int i) [0..<length (chunk_nums ms)]"
      using chunk_nums_send_loop
              [of cs mem tun "st_size nd" d "total_chunks_of (st_size nd) cs" 0 content]
        looped(4) by simp
    ultimately show ?thesis by simp
  qed
  from a m b show ?thesis by simp
qed

theorem chunks_received_last_witness:
  "map_option chunks_received
     (downloads (snd (handle_file_chunk dispatched_server ''d1'' [65] 7)) ''d1'') = Some 7 \<and>
   chunk_nums (map snd d1_messages) = [1, 2]"
proof -
  have 1: "downloads dispatched_server ''d1'' =
      Some \<lparr>download_id = ''d1'', client_id = ''site-7'', file_path = d1_path,
            remote_path = ''$HOME/file_to_download.txt'', status = Downloading,
            started_at = ''2026-11-04T12:00:00'', chunks_received = 0,
            completed_at = None, total_size = None, error = None\<rparr>"
    by (simp add: dispatched_server_eq)
  have 2: "chunk_nums (map snd d1_messages) = [1, 2]"
    by (simp add: d1_messages_def)
  have 3: "open_fails dispatched_server d1_path = None"
    by (simp add: dispatched_server_eq d1_opens)
  have 4: "chunks_received \<lparr>download_id = ''d1'', client_id = ''site-7'', file_path = d1_path,
            remote_path = ''$HOME/file_to_download.txt'', status = Downloading,
            started_at = ''2026-11-04T12:00:00'', chunks_received = 0,
            completed_at = None, total_size = None, error = None\<rparr> \<le> 7"
    by simp
  from chunks_received_last [OF 1, of "[65]" 7 2 1048576 None client_files "''d1''"
         "''/home/u/file_to_download.txt''"] 2 3 4
  show ?thesis by (simp add: d1_sent)
qed



text \<open>
  Claim C7. A chunk whose \<open>download_id\<close> is not in the tracker raises nothing and leaves
  the whole server state as it was: no file is opened or written, and the tracker is the
  same.
\<close>

theorem unknown_chunk_ignored:
  assumes "downloads srv did = None"
  shows "handle_file_chunk srv did chunk_data chunk_num = (None, srv) \<and>
         on_message ws now (File_chunk did chunk_num tot chunk_data) (cid, srv) =
           (None, cid, srv)"
  using assms by (simp add: handle_file_chunk_def)

theorem unknown_chunk_ignored_witness:
  "handle_file_chunk dispatched_server ''d2'' [0, 255, 300] 1 = (None, dispatched_server)"
proof -
  have "downloads dispatched_server ''d2'' = None"
    by (simp add: dispatched_server_eq)
  from unknown_chunk_ignored [OF this, of "[0, 255, 300]" 1]
  show ?thesis by simp
qed

text \<open>
  Claim C8 says that a dispatch to an identity absent from the registry fails with
  ClientNotConnected (status 404). The empty identity, which a tunnel can register under,
  is refused earlier with status 400, \<open>client_id is required\<close>.
\<close>

theorem dispatch_empty_identity_counterexample:
  "connected_clients fresh_server [] = None \<and>
   trigger_download fresh_server env_d1 \<lparr>req_client_id = Some [], req_file_path = None\<rparr> =
     (Error_response 400 ''client_id is required'', fresh_server) \<and>
   Error_response 400 ''client_id is required'' \<noteq>
     Error_response 404 (''Client '' @ [] @ '' is not connected'')"
  by (simp add: fresh_server_def trigger_download_def)

text \<open>
  Claim C8 as amended. A dispatch naming an identity absent from the registry never
  succeeds and changes nothing (no record, no message): it fails with ClientNotConnected
  (404) when the identity is not empty, and with the missing-field error (400) when it is.
\<close>

theorem dispatch_absent_identity:
  assumes "req_client_id req = Some cid" and "connected_clients srv cid = None"
  shows "trigger_download srv ev req =
           (if cid = [] then Error_response 400 ''client_id is required''
            else Error_response 404 (''Client '' @ cid @ '' is not connected''), srv)"
  using assms by (simp add: trigger_download_def)

theorem dispatch_absent_identity_witness:
  "trigger_download site7_server env_d1
     \<lparr>req_client_id = Some ''site-9'', req_file_path = Some ''$HOME/report.csv''\<rparr> =
   (Error_response 404 ''Client site-9 is not connected'', site7_server)"
proof -
  have 1: "req_client_id \<lparr>req_client_id = Some ''site-9'',
             req_file_path = Some ''$HOME/report.csv''\<rparr> = Some ''site-9''"
    by simp
  have 2: "connected_clients site7_server ''site-9'' = None"
    by (simp add: site7_server_def fresh_server_def)
  from dispatch_absent_identity [OF 1 2, of env_d1]
  show ?thesis by simp
qed

text \<open>
  Claim C9. For a file size of at least 0 and a chunk size of at least 1, the count of
  chunks the client computes is the ceiling of their quotient, and every chunk message
  \<open>send_file\<close> sends for a file of that size carries it as \<open>total_chunks\<close>. It is 0
  for a zero-byte file, for which \<open>send_file\<close>, with a chunk size that one read can
  allocate and a tunnel that is open, sends the \<open>file_complete\<close> message and nothing
  else.
\<close>

theorem total_chunks_ceiling:
  assumes "0 \<le> file_size" and "1 \<le> chunk_size"
  shows "total_chunks_of file_size chunk_size =
           \<lceil>real_of_int file_size / real_of_int chunk_size\<rceil> \<and>
         chunk_totals
           (fst (send_file chunk_size mem tun
                   (fs(path_of fp \<mapsto> \<lparr>st_size = file_size, opened = r\<rparr>)) did fp)) =
           replicate
             (length (chunk_totals
                (fst (send_file chunk_size mem tun
                        (fs(path_of fp \<mapsto> \<lparr>st_size = file_size, opened = r\<rparr>)) did fp))))
             \<lceil>real_of_int file_size / real_of_int chunk_size\<rceil> \<and>
         total_chunks_of 0 chunk_size = 0 \<and>
         (chunk_size \<le> max_read_size \<and> chunk_size \<le> mem \<and> \<not> tunnel_closed tun \<longrightarrow>
          send_file chunk_size mem tun
            (fs(path_of fp \<mapsto> \<lparr>st_size = 0, opened = Inr []\<rparr>)) did fp =
            ([File_complete did 0 0], None))"
proof -
  have pos: "0 < chunk_size" using assms(2) by simp
  have a: "total_chunks_of file_size chunk_size =
             \<lceil>real_of_int file_size / real_of_int chunk_size\<rceil>"
    unfolding total_chunks_of_def ceiling_divide_eq_div by (rule div_ceil [OF pos])
  define fs1 where "fs1 = fs(path_of fp \<mapsto> \<lparr>st_size = file_size, opened = r\<rparr>)"
  have b: "chunk_totals (fst (send_file chunk_size mem tun fs1 did fp)) =
             replicate (length (chunk_totals (fst (send_file chunk_size mem tun fs1 did fp))))
               (total_chunks_of file_size chunk_size)"
  proof (cases rule: send_file_cases [of chunk_size mem tun fs1 did fp])
    case (absent e)
    then show ?thesis by simp
  next
    case (looped nd content ms k)
    have nd: "st_size nd = file_size"
      using looped(1) by (auto simp: fs1_def)
    have "chunk_totals (fst (send_file chunk_size mem tun fs1 did fp)) = chunk_totals ms"
      using looped(5) by (cases k) (simp_all add: chunk_totals_append)
    moreover have "chunk_totals ms =
        replicate (length (chunk_totals ms)) (total_chunks_of file_size chunk_size)"
      using chunk_totals_send_loop
              [of chunk_size mem tun file_size did "total_chunks_of file_size chunk_size" 0
                  content]
        looped(4) nd by simp
    ultimately show ?thesis by simp
  qed
  have c: "total_chunks_of 0 chunk_size = 0"
    using pos by (simp add: total_chunks_of_def div_pos_pos_trivial)
  have d: "send_file chunk_size mem tun
             (fs(path_of fp \<mapsto> \<lparr>st_size = 0, opened = Inr []\<rparr>)) did fp =
            ([File_complete did 0 0], None)"
    if "chunk_size \<le> max_read_size" and "chunk_size \<le> mem" and "\<not> tunnel_closed tun"
  proof -
    have "f_read mem chunk_size [] = Inr ([], [])"
      using that assms(2) by (simp add: f_read_in_bounds)
    then have "send_loop chunk_size mem tun 0 did 0 0 [] = ([], Inr 0)"
      by (subst send_loop.simps) simp
    then show ?thesis
      using pos c that(3) by (simp add: send_file_def)
  qed
  from a b c d show ?thesis
    unfolding fs1_def by simp
qed

theorem total_chunks_ceiling_witness:
  "total_chunks_of 2621440 1048576 = 3 \<and>
   chunk_totals (map snd d1_messages) = [2, 2] \<and>
   send_file 1048576 1048576 None
     (client_files(''/tmp/empty'' \<mapsto> \<lparr>st_size = 0, opened = Inr []\<rparr>))
     ''d1'' ''/tmp/empty'' = ([File_complete ''d1'' 0 0], None)"
proof -
  have 1: "(0::int) \<le> 2621440" and 2: "(1::int) \<le> 1048576" by simp_all
  have 3: "\<lceil>real_of_int 2621440 / real_of_int 1048576\<rceil> = (3::int)"
    by (simp add: ceiling_divide_eq_div)
  have 4: "(1048576::int) \<le> max_read_size \<and> (1048576::int) \<le> 1048576 \<and>
           \<not> tunnel_closed None"
    by (simp add: max_read_size_def tunnel_closed_def)
  have 5: "path_of ''/tmp/empty'' = ''/tmp/empty''"
    by (simp add: path_of_def path_root_def path_parts_def path_str_def)
  have 6: "chunk_totals (map snd d1_messages) = [2, 2]"
    by (simp add: d1_messages_def)
  from total_chunks_ceiling [OF 1 2, of 1048576 None client_files "''/tmp/empty''" "Inr []"
         "''d1''"] 3 4 5 6
  show ?thesis by simp
qed

text \<open>
  Claim C10 says, among other things, that the base name of the remote file never appears
  in the destination path. For the default remote path the base name is
  \<open>file_to_download.txt\<close>, the end of every destination.
\<close>

theorem basename_in_destination_counterexample:
  "map_option remote_path (downloads dispatched_server ''d1'') =
     Some ''$HOME/file_to_download.txt'' \<and>
   map_option file_path (downloads dispatched_server ''d1'') = Some d1_path \<and>
   basename ''$HOME/file_to_download.txt'' = ''file_to_download.txt'' \<and>
   sublist (basename ''$HOME/file_to_download.txt'') d1_path"
proof -
  have a: "basename ''$HOME/file_to_download.txt'' = ''file_to_download.txt''"
    by (simp add: basename_def)
  have b: "d1_path = ''downloads/site-7_20261104_120000_'' @ ''file_to_download.txt''"
    by (simp add: d1_path_def)
  have c: "sublist ''file_to_download.txt'' d1_path"
    unfolding b by (rule sublist_append_leftI)
  show ?thesis
    using c by (simp add: a dispatched_server_eq)
qed

text \<open>
  Claim C10 as amended. The destination of a dispatched download is \<open>download_dir\<close>
  joined with \<open>client_id\<close>, an underscore, the UTC time to the second and
  \<open>_file_to_download.txt\<close>, the same for every requested remote path, and a second
  dispatch for the same client within the same second gets the same destination.
\<close>

theorem destination_path:
  assumes "cid \<noteq> []" and "connected_clients srv cid = Some ws"
    and "utcnow_name ev2 = (utcnow_name ev1)\<lparr>microsecond := us\<rparr>"
    and "uuid4 ev2 \<noteq> uuid4 ev1"
  shows "map_option file_path
           (downloads (snd (trigger_download srv ev1
                              \<lparr>req_client_id = Some cid, req_file_path = fp1\<rparr>)) (uuid4 ev1)) =
         Some (path_div (download_dir srv)
                 (cid @ ''_'' @ strftime (utcnow_name ev1) @ ''_file_to_download.txt'')) \<and>
         map_option file_path
           (downloads
              (snd (trigger_download
                      (snd (trigger_download srv ev1
                              \<lparr>req_client_id = Some cid, req_file_path = fp1\<rparr>))
                      ev2 \<lparr>req_client_id = Some cid, req_file_path = fp2\<rparr>))
              (uuid4 ev1)) =
         Some (path_div (download_dir srv)
                 (cid @ ''_'' @ strftime (utcnow_name ev1) @ ''_file_to_download.txt'')) \<and>
         map_option file_path
           (downloads
              (snd (trigger_download
                      (snd (trigger_download srv ev1
                              \<lparr>req_client_id = Some cid, req_file_path = fp1\<rparr>))
                      ev2 \<lparr>req_client_id = Some cid, req_file_path = fp2\<rparr>))
              (uuid4 ev2)) =
         Some (path_div (download_dir srv)
                 (cid @ ''_'' @ strftime (utcnow_name ev1) @ ''_file_to_download.txt''))"
  using assms
  by (simp add: trigger_download_def local_filename_def strftime_microsecond Let_def
        split: option.splits)

theorem destination_path_witness:
  "map_option file_path
     (downloads (snd (trigger_download dispatched_server env_d2
                   \<lparr>req_client_id = Some ''site-7'',
                    req_file_path = Some ''/var/log/syslog''\<rparr>)) ''d1'') = Some d1_path \<and>
   map_option file_path
     (downloads (snd (trigger_download dispatched_server env_d2
                   \<lparr>req_client_id = Some ''site-7'',
                    req_file_path = Some ''/var/log/syslog''\<rparr>)) ''d2'') = Some d1_path"
proof -
  have 1: "''site-7'' \<noteq> []" by simp
  have 2: "connected_clients site7_server ''site-7'' = Some 1"
    by (simp add: site7_server_def fresh_server_def)
  have 3: "utcnow_name env_d2 = (utcnow_name env_d1)\<lparr>microsecond := 500000\<rparr>"
    by (simp add: env_d1_def env_d2_def)
  have 4: "uuid4 env_d2 \<noteq> uuid4 env_d1"
    by (simp add: env_d1_def env_d2_def)
  have 5: "download_dir site7_server = ''./downloads''"
    by (simp add: site7_server_def fresh_server_def)
  have 6: "utcnow_name env_d1 = noon" "uuid4 env_d1 = ''d1''" "uuid4 env_d2 = ''d2''"
    by (simp_all add: env_d1_def env_d2_def)
  have 7: "path_div ''./downloads''
             (''site-7'' @ ''_'' @ strftime noon @ ''_file_to_download.txt'') = d1_path"
    using d1_path_eq by (simp add: local_filename_def)
  from destination_path [OF 1 2 3 4, of None "Some ''/var/log/syslog''"]
  show ?thesis
    unfolding dispatched_server_def [symmetric] 5 6 7 by simp
qed

end
